theory Spec2Isabelle
  imports Main "HOL-Library.Sublist" "HOL-Library.AList"
begin

section \<open>Data model\<close>

text \<open>
  The token manager of \<^verbatim>\<open>background/auth_state_manager.js\<close> talks to three parties
  that are not part of the repository: the Supabase identity client
  (\<^verbatim>\<open>supabase.auth.getSession / refreshSession / setSession\<close>), the browser's
  \<^verbatim>\<open>chrome.storage.local\<close> and \<^verbatim>\<open>fetch\<close>. They are taken as parameters: an
  environment of functions over an abstract world \<open>'w\<close>. Each of them may throw, so
  every result type has a \<open>Throws\<close> alternative; what is thrown is an \<^verbatim>\<open>Error\<close> object.
  Times are whole numbers (seconds for \<^verbatim>\<open>expires_at\<close>, milliseconds for \<^verbatim>\<open>Date.now()\<close>)
  in the range where JavaScript's arithmetic is exact, so they are integers here.
\<close>

text \<open>A Supabase session, with the fields the code reads. \<open>expires_at\<close> is in seconds and
  may be missing; an empty \<open>access_token\<close> stands for every falsy value.\<close>

record session =
  access_token :: string
  refresh_token :: string
  expires_at :: "int option"

type_synonym auth_error = string

datatype gs_result = GS_Throws | GS_Returns "session option" "auth_error option"

datatype rs_result = RS_Throws | RS_Returns "session option" "auth_error option"

datatype ss_result = SS_Throws | SS_Returns "auth_error option"

text \<open>The object kept under the key \<^verbatim>\<open>fitly-auth-token\<close>: either a JSON string or an
  object already. A field that is absent is \<open>None\<close>.\<close>

record stored_session =
  st_access_token :: "string option"
  st_refresh_token :: "string option"

datatype raw_value = RawString string | RawObject stored_session

datatype st_result = ST_Throws | ST_Returns "raw_value option"

text \<open>\<^verbatim>\<open>JSON.parse\<close> throws or returns a value; a value that is not an object with
  fields (\<^verbatim>\<open>null\<close>, a number, ...) is \<open>None\<close>.\<close>

datatype json_result = JSON_Throws | JSON_Value "stored_session option"

record fetch_options =
  http_method :: string
  headers :: "(string \<times> string) list"
  body :: "string option"

record response =
  status :: int
  payload :: string

text \<open>A JavaScript \<^verbatim>\<open>Error\<close> object: its message and the \<^verbatim>\<open>errorCode\<close> property, when one
  was set.\<close>

record js_error =
  message :: string
  errorCode :: "string option"

datatype fetch_result = Fetch_Throws js_error | Fetch_Returns response

record 'w env =
  getSession :: "'w \<Rightarrow> gs_result \<times> 'w"
  refreshSession :: "'w \<Rightarrow> rs_result \<times> 'w"
  setSession :: "string option \<Rightarrow> string \<Rightarrow> 'w \<Rightarrow> ss_result \<times> 'w"
  storageGet :: "string \<Rightarrow> 'w \<Rightarrow> st_result \<times> 'w"
  jsonParse :: "string \<Rightarrow> json_result"
  now :: "'w \<Rightarrow> int"
  fetch :: "string \<Rightarrow> fetch_options \<Rightarrow> 'w \<Rightarrow> fetch_result \<times> 'w"

text \<open>Every call that leaves the module is recorded, in order, the way the test suite's
  mocks record them (\<^verbatim>\<open>expect(refreshSession).not.toHaveBeenCalled()\<close>).\<close>

datatype call =
    GetSession
  | RefreshSession
  | SetSession "string option" string
  | StorageGet string
  | Fetch string fetch_options

record 'w io_state =
  world :: 'w
  calls :: "call list"

text \<open>What awaiting a promise yields.\<close>

datatype outcome = Fulfilled "string option" | Rejected

text \<open>
  The module state of one call chain run to completion. \<open>refreshPromise\<close> is the module
  variable \<^verbatim>\<open>_refreshPromise\<close>: \<open>None\<close> for \<^verbatim>\<open>null\<close>; a refresh in flight that another
  call chain started is given by what awaiting it yields, the outcome and the world at
  resumption. While the chain is suspended in a call of the environment, the world may
  change in any way (the environment's functions return the new world); the module
  variable is changed by this chain only. Call chains that interleave on the module
  variable are the subject of the interleaving model below.
\<close>

record 'w tm_state = "'w io_state" +
  refreshPromise :: "('w \<Rightarrow> outcome \<times> 'w) option"

section \<open>The token manager\<close>

definition CLOCK_SKEW_TOLERANCE_S :: int where
  "CLOCK_SKEW_TOLERANCE_S = 60"

definition truthy :: "string \<Rightarrow> bool" where
  "truthy s = (s \<noteq> [])"

text \<open>\<^verbatim>\<open>session.expires_at ? session.expires_at * 1000 : 0\<close>\<close>

definition expiresAtMs :: "session \<Rightarrow> int" where
  "expiresAtMs s =
     (case expires_at s of
        None \<Rightarrow> 0
      | Some e \<Rightarrow> if e \<noteq> 0 then e * 1000 else 0)"

text \<open>\<^verbatim>\<open>Math.floor((expiresAtMs - Date.now()) / 1000)\<close>: whole seconds, rounded down.\<close>

definition ttl_of :: "int \<Rightarrow> int \<Rightarrow> int" where
  "ttl_of expMs nowMs = (expMs - nowMs) div 1000"

text \<open>\<^verbatim>\<open>fallbackSession.expires_at ? Math.floor((expires_at * 1000 - Date.now()) / 1000) : 0\<close>\<close>

definition fallbackTTL :: "session \<Rightarrow> int \<Rightarrow> int" where
  "fallbackTTL s nowMs =
     (case expires_at s of
        None \<Rightarrow> 0
      | Some e \<Rightarrow> if e \<noteq> 0 then ttl_of (e * 1000) nowMs else 0)"

subsection \<open>Calls into the environment\<close>

definition call_getSession ::
  "'w env \<Rightarrow> ('w, 'z) io_state_scheme \<Rightarrow> gs_result \<times> ('w, 'z) io_state_scheme" where
  "call_getSession e s =
     (case getSession e (world s) of
        (r, w) \<Rightarrow> (r, s\<lparr>world := w, calls := calls s @ [GetSession]\<rparr>))"

definition call_refreshSession ::
  "'w env \<Rightarrow> ('w, 'z) io_state_scheme \<Rightarrow> rs_result \<times> ('w, 'z) io_state_scheme" where
  "call_refreshSession e s =
     (case refreshSession e (world s) of
        (r, w) \<Rightarrow> (r, s\<lparr>world := w, calls := calls s @ [RefreshSession]\<rparr>))"

definition call_setSession ::
  "'w env \<Rightarrow> string option \<Rightarrow> string \<Rightarrow> ('w, 'z) io_state_scheme
     \<Rightarrow> ss_result \<times> ('w, 'z) io_state_scheme" where
  "call_setSession e at rt s =
     (case setSession e at rt (world s) of
        (r, w) \<Rightarrow> (r, s\<lparr>world := w, calls := calls s @ [SetSession at rt]\<rparr>))"

definition call_storageGet ::
  "'w env \<Rightarrow> string \<Rightarrow> ('w, 'z) io_state_scheme \<Rightarrow> st_result \<times> ('w, 'z) io_state_scheme" where
  "call_storageGet e k s =
     (case storageGet e k (world s) of
        (r, w) \<Rightarrow> (r, s\<lparr>world := w, calls := calls s @ [StorageGet k]\<rparr>))"

definition call_fetch ::
  "'w env \<Rightarrow> string \<Rightarrow> fetch_options \<Rightarrow> ('w, 'z) io_state_scheme
     \<Rightarrow> fetch_result \<times> ('w, 'z) io_state_scheme" where
  "call_fetch e url opts s =
     (case fetch e url opts (world s) of
        (r, w) \<Rightarrow> (r, s\<lparr>world := w, calls := calls s @ [Fetch url opts]\<rparr>))"

subsection \<open>\<^verbatim>\<open>_doRefresh\<close>\<close>

text \<open>\<^verbatim>\<open>!error && data.session?.access_token\<close>: the new access token of a refresh that
  succeeded. A refresh that throws lands in the \<^verbatim>\<open>catch\<close> and counts as failed.\<close>

definition refreshed_token :: "rs_result \<Rightarrow> string option" where
  "refreshed_token r =
     (case r of
        RS_Throws \<Rightarrow> None
      | RS_Returns sess err \<Rightarrow>
          (case err of
             Some _ \<Rightarrow> None
           | None \<Rightarrow>
               (case sess of
                  None \<Rightarrow> None
                | Some x \<Rightarrow> if truthy (access_token x) then Some (access_token x) else None)))"

text \<open>\<^verbatim>\<open>typeof raw === 'string' ? JSON.parse(raw) : raw\<close>, after \<^verbatim>\<open>if (!raw) return null\<close>.\<close>

definition parse_raw :: "'w env \<Rightarrow> raw_value \<Rightarrow> json_result" where
  "parse_raw e raw =
     (case raw of
        RawString str \<Rightarrow> jsonParse e str
      | RawObject obj \<Rightarrow> JSON_Value (Some obj))"

definition raw_falsy :: "raw_value option \<Rightarrow> bool" where
  "raw_falsy r =
     (case r of
        None \<Rightarrow> True
      | Some (RawString str) \<Rightarrow> \<not> truthy str
      | Some (RawObject _) \<Rightarrow> False)"

text \<open>\<^verbatim>\<open>if (freshToken)\<close>, \<^verbatim>\<open>if (!parsed?.refresh_token)\<close>: a string that is neither
  \<^verbatim>\<open>null\<close> (or \<^verbatim>\<open>undefined\<close>) nor empty.\<close>

definition usable :: "string option \<Rightarrow> string option" where
  "usable v = (case v of None \<Rightarrow> None | Some t \<Rightarrow> if truthy t then Some t else None)"

text \<open>The object that the rescue reads from the store, if it gets one: the read may throw,
  the value may be missing or empty, and \<^verbatim>\<open>JSON.parse\<close> may throw. Each of these ends
  the rescue with \<^verbatim>\<open>null\<close>.\<close>

definition stored_object :: "'w env \<Rightarrow> st_result \<Rightarrow> stored_session option" where
  "stored_object e st =
     (case st of
        ST_Throws \<Rightarrow> None
      | ST_Returns raw \<Rightarrow>
          (case raw of
             None \<Rightarrow> None
           | Some rv \<Rightarrow>
               if raw_falsy raw then None
               else
                 (case parse_raw e rv of
                    JSON_Throws \<Rightarrow> None
                  | JSON_Value parsed \<Rightarrow> parsed)))"

text \<open>The second attempt of \<^verbatim>\<open>_doRefresh\<close>: the storage rescue.\<close>

definition storage_rescue ::
  "'w env \<Rightarrow> ('w, 'z) io_state_scheme \<Rightarrow> string option \<times> ('w, 'z) io_state_scheme" where
  "storage_rescue e s =
     (case call_storageGet e ''fitly-auth-token'' s of
        (stored, s1) \<Rightarrow>
          (case stored_object e stored of
             None \<Rightarrow> (None, s1)
           | Some parsed \<Rightarrow>
               (case usable (st_refresh_token parsed) of
                  None \<Rightarrow> (None, s1)
                | Some rt \<Rightarrow>
                    (case call_setSession e (st_access_token parsed) rt s1 of
                       (SS_Throws, s2) \<Rightarrow> (None, s2)
                     | (SS_Returns (Some setErr), s2) \<Rightarrow> (None, s2)
                     | (SS_Returns None, s2) \<Rightarrow>
                         (case call_refreshSession e s2 of
                            (retry, s3) \<Rightarrow> (refreshed_token retry, s3))))))"

definition doRefresh ::
  "'w env \<Rightarrow> ('w, 'z) io_state_scheme \<Rightarrow> string option \<times> ('w, 'z) io_state_scheme" where
  "doRefresh e s =
     (case call_refreshSession e s of
        (r, s1) \<Rightarrow>
          (case refreshed_token r of
             Some tok \<Rightarrow> (Some tok, s1)
           | None \<Rightarrow> storage_rescue e s1))"

subsection \<open>\<^verbatim>\<open>refreshAuthToken\<close>\<close>

text \<open>
  One call run to completion. With a refresh in flight the caller awaits it (a rejection
  becomes \<^verbatim>\<open>null\<close>) and leaves the module variable alone. Otherwise it runs
  \<^verbatim>\<open>_doRefresh\<close> itself and the \<^verbatim>\<open>finally\<close> block resets the variable to \<^verbatim>\<open>null\<close>.
  \<^verbatim>\<open>_doRefresh\<close> catches whatever is thrown inside it, so the promise of the second
  branch never rejects. The window in which the variable holds the promise of the own
  \<^verbatim>\<open>_doRefresh\<close> is the subject of the interleaving model below. The first branch
  assigns nothing, so here the variable is after the call what it was before; that the
  caller which started the refresh resets it when it is resumed is a step of that
  caller, in the interleaving model.
\<close>

definition refreshAuthToken ::
  "'w env \<Rightarrow> string option \<Rightarrow> 'w tm_state \<Rightarrow> string option \<times> 'w tm_state" where
  "refreshAuthToken e refreshTokenArg s =
     (case refreshPromise s of
        Some p \<Rightarrow>
          (case p (world s) of
             (Fulfilled v, w) \<Rightarrow> (v, s\<lparr>world := w\<rparr>)
           | (Rejected, w) \<Rightarrow> (None, s\<lparr>world := w\<rparr>))
      | None \<Rightarrow>
          (case doRefresh e s of
             (v, s1) \<Rightarrow> (v, s1\<lparr>refreshPromise := None\<rparr>)))"

subsection \<open>\<^verbatim>\<open>getAuthToken\<close>\<close>

definition getAuthToken :: "'w env \<Rightarrow> 'w tm_state \<Rightarrow> string option \<times> 'w tm_state" where
  "getAuthToken e s =
     (case call_getSession e s of
        (GS_Throws, s1) \<Rightarrow> (None, s1)
      | (GS_Returns sess err, s1) \<Rightarrow>
          (case err of
             Some _ \<Rightarrow> (None, s1)
           | None \<Rightarrow>
               (case sess of
                  None \<Rightarrow> (None, s1)
                | Some x \<Rightarrow>
                    if \<not> truthy (access_token x) then (None, s1)
                    else
                      let ttl = ttl_of (expiresAtMs x) (now e (world s1)) in
                      if ttl \<le> CLOCK_SKEW_TOLERANCE_S then
                        (case refreshAuthToken e None s1 of
                           (freshToken, s2) \<Rightarrow>
                             (case usable freshToken of
                                Some t \<Rightarrow> (Some t, s2)
                              | None \<Rightarrow>
                                  if ttl > 0 then (Some (access_token x), s2)
                                  else (None, s2)))
                      else (Some (access_token x), s1))))"

subsection \<open>\<^verbatim>\<open>forceRefreshToken\<close>\<close>

definition refresh_failed_error :: js_error where
  "refresh_failed_error =
     \<lparr>message = ''Token refresh failed: all refresh attempts failed'',
      errorCode = Some ''REFRESH_FAILED''\<rparr>"

text \<open>The first block: the token that is fresh enough, if there is one. A \<^verbatim>\<open>getSession\<close>
  that throws is caught and logged.\<close>

definition ttl_check :: "'w env \<Rightarrow> 'w tm_state \<Rightarrow> string option \<times> 'w tm_state" where
  "ttl_check e s =
     (case call_getSession e s of
        (GS_Throws, s1) \<Rightarrow> (None, s1)
      | (GS_Returns sess err, s1) \<Rightarrow>
          (case sess of
             None \<Rightarrow> (None, s1)
           | Some x \<Rightarrow>
               if truthy (access_token x)
                  \<and> ttl_of (expiresAtMs x) (now e (world s1)) \<ge> 900
               then (Some (access_token x), s1)
               else (None, s1)))"

text \<open>The fallback after a failed refresh: the current token, if its TTL is positive.\<close>

definition fallback_check :: "'w env \<Rightarrow> 'w tm_state \<Rightarrow> string option \<times> 'w tm_state" where
  "fallback_check e s =
     (case call_getSession e s of
        (GS_Throws, s1) \<Rightarrow> (None, s1)
      | (GS_Returns sess err, s1) \<Rightarrow>
          (case sess of
             None \<Rightarrow> (None, s1)
           | Some x \<Rightarrow>
               if truthy (access_token x) \<and> fallbackTTL x (now e (world s1)) > 0
               then (Some (access_token x), s1)
               else (None, s1)))"

text \<open>The part after the first block: refresh, then the fallback, then the error.\<close>

definition refresh_or_fallback ::
  "'w env \<Rightarrow> 'w tm_state \<Rightarrow> (js_error + string) \<times> 'w tm_state" where
  "refresh_or_fallback e s =
     (case refreshAuthToken e None s of
        (freshToken, s1) \<Rightarrow>
          (case usable freshToken of
             Some t \<Rightarrow> (Inr t, s1)
           | None \<Rightarrow>
               (case fallback_check e s1 of
                  (Some t, s2) \<Rightarrow> (Inr t, s2)
                | (None, s2) \<Rightarrow> (Inl refresh_failed_error, s2))))"

definition forceRefreshToken ::
  "'w env \<Rightarrow> bool \<Rightarrow> 'w tm_state \<Rightarrow> (js_error + string) \<times> 'w tm_state" where
  "forceRefreshToken e bypassTTL s =
     (if \<not> bypassTTL then
        (case ttl_check e s of
           (Some t, s1) \<Rightarrow> (Inr t, s1)
         | (None, s1) \<Rightarrow> refresh_or_fallback e s1)
      else refresh_or_fallback e s)"

subsection \<open>\<^verbatim>\<open>makeAuthenticatedRequest\<close>\<close>

text \<open>\<^verbatim>\<open>{...options, headers: {...options.headers, 'Authorization': `Bearer ${token}`,
  'Content-Type': 'application/json'}}\<close>: a key that is there keeps its place and takes
  the new value, a new key goes to the end.\<close>

definition with_bearer :: "fetch_options \<Rightarrow> string \<Rightarrow> fetch_options" where
  "with_bearer opts token =
     opts\<lparr>headers :=
       AList.update ''Content-Type'' ''application/json''
         (AList.update ''Authorization'' (''Bearer '' @ token) (headers opts))\<rparr>"

definition unauthorized_error :: js_error where
  "unauthorized_error = \<lparr>message = ''Unauthorized'', errorCode = None\<rparr>"

definition makeAuthenticatedRequest ::
  "'w env \<Rightarrow> string \<Rightarrow> fetch_options \<Rightarrow> 'w tm_state \<Rightarrow> (js_error + response) \<times> 'w tm_state" where
  "makeAuthenticatedRequest e url opts s =
     (case getAuthToken e s of
        (token, s1) \<Rightarrow>
          (case usable token of
             None \<Rightarrow> (Inl unauthorized_error, s1)
           | Some t \<Rightarrow>
               (case call_fetch e url (with_bearer opts t) s1 of
                  (Fetch_Throws err, s2) \<Rightarrow> (Inl err, s2)
                | (Fetch_Returns resp, s2) \<Rightarrow>
                    if status resp = 401 then
                      (case refreshAuthToken e None s2 of
                         (newToken, s3) \<Rightarrow>
                           (case usable newToken of
                              Some t' \<Rightarrow>
                                (case call_fetch e url (with_bearer opts t') s3 of
                                   (Fetch_Throws err, s4) \<Rightarrow> (Inl err, s4)
                                 | (Fetch_Returns resp', s4) \<Rightarrow> (Inr resp', s4))
                            | None \<Rightarrow> (Inr resp, s3)))
                    else (Inr resp, s2))))"

text \<open>The calls made between two states of one run.\<close>

definition new_calls ::
  "('w, 'y) io_state_scheme \<Rightarrow> ('w, 'z) io_state_scheme \<Rightarrow> call list" where
  "new_calls s s' = drop (length (calls s)) (calls s')"

definition is_fetch :: "call \<Rightarrow> bool" where
  "is_fetch c = (case c of Fetch _ _ \<Rightarrow> True | _ \<Rightarrow> False)"

section \<open>The refresh mutex under interleaving\<close>

text \<open>
  The service worker runs one call chain at a time, and call chains interleave only at an
  \<^verbatim>\<open>await\<close>. \<^verbatim>\<open>refreshAuthToken\<close> has one suspension point on each of its two paths
  (\<^verbatim>\<open>await _refreshPromise\<close>), so a call of it is a coroutine with three positions:
  not yet called, suspended at the \<^verbatim>\<open>await\<close> of the first branch (a refresh was in
  flight) or of the second (it started the refresh itself), and returned. The promise
  that \<^verbatim>\<open>_doRefresh()\<close> returns is pending until the body has run. The module variable
  \<^verbatim>\<open>_refreshPromise\<close> holds a reference to one of these promises, here its index.

  A schedule is a list of events: a caller enters \<^verbatim>\<open>refreshAuthToken\<close>, a pending
  \<^verbatim>\<open>_doRefresh\<close> runs to its end and settles its promise, a suspended caller is resumed.
  An event that cannot happen in the current state (resuming a caller whose promise is
  still pending, say) leaves the state as it is. The model resumes suspended callers in
  any order; the runtime's order (first suspended, first resumed) is one of them.
  The calls that \<^verbatim>\<open>_doRefresh\<close> makes are recorded when its promise settles.
  \<^verbatim>\<open>_doRefresh\<close> catches whatever is thrown inside it, so its promise is fulfilled,
  with a token or with \<^verbatim>\<open>null\<close>, and never rejected.
\<close>

datatype promise_state = Pending | Settled "string option"

datatype caller =
    NotCalled
  | AwaitingShared nat
  | AwaitingOwn nat
  | Returned nat "string option"

record 'w sys = "'w io_state" +
  inflight :: "nat option"
  promises :: "promise_state list"
  callers :: "nat \<Rightarrow> caller"

datatype event = Call nat | Settle nat | Resume nat

definition enter :: "nat \<Rightarrow> 'w sys \<Rightarrow> 'w sys" where
  "enter c s =
     (case callers s c of
        NotCalled \<Rightarrow>
          (case inflight s of
             Some p \<Rightarrow> s\<lparr>callers := (callers s)(c := AwaitingShared p)\<rparr>
           | None \<Rightarrow>
               s\<lparr>inflight := Some (length (promises s)),
                 promises := promises s @ [Pending],
                 callers := (callers s)(c := AwaitingOwn (length (promises s)))\<rparr>)
      | _ \<Rightarrow> s)"

definition settle :: "'w env \<Rightarrow> nat \<Rightarrow> 'w sys \<Rightarrow> 'w sys" where
  "settle e p s =
     (if p < length (promises s) \<and> promises s ! p = Pending then
        (case doRefresh e s of
           (v, s1) \<Rightarrow> s1\<lparr>promises := (promises s1)[p := Settled v]\<rparr>)
      else s)"

definition settled_value :: "'w sys \<Rightarrow> nat \<Rightarrow> string option option" where
  "settled_value s p =
     (if p < length (promises s) then
        (case promises s ! p of Pending \<Rightarrow> None | Settled v \<Rightarrow> Some v)
      else None)"

definition resume :: "nat \<Rightarrow> 'w sys \<Rightarrow> 'w sys" where
  "resume c s =
     (case callers s c of
        AwaitingShared p \<Rightarrow>
          (case settled_value s p of
             Some v \<Rightarrow> s\<lparr>callers := (callers s)(c := Returned p v)\<rparr>
           | None \<Rightarrow> s)
      | AwaitingOwn p \<Rightarrow>
          (case settled_value s p of
             Some v \<Rightarrow> s\<lparr>inflight := None, callers := (callers s)(c := Returned p v)\<rparr>
           | None \<Rightarrow> s)
      | _ \<Rightarrow> s)"

fun step :: "'w env \<Rightarrow> 'w sys \<Rightarrow> event \<Rightarrow> 'w sys" where
  "step e s (Call c) = enter c s"
| "step e s (Settle p) = settle e p s"
| "step e s (Resume c) = resume c s"


definition start :: "'w \<Rightarrow> 'w sys" where
  "start w =
     \<lparr>world = w, calls = [], inflight = None, promises = [], callers = (\<lambda>c. NotCalled)\<rparr>"

definition pending_count :: "'w sys \<Rightarrow> nat" where
  "pending_count s = length (filter (\<lambda>p. p = Pending) (promises s))"

text \<open>
  What holds in every state a schedule can reach: a pending promise is the one the module
  variable refers to; a caller suspended in the second branch started the promise the
  variable refers to, and there is at most one such caller; a caller that has returned
  holds the value its promise settled with.
\<close>

definition mutex_inv :: "'w sys \<Rightarrow> bool" where
  "mutex_inv s \<longleftrightarrow>
     (\<forall>q < length (promises s). promises s ! q = Pending \<longrightarrow> inflight s = Some q)
   \<and> (\<forall>c p. callers s c = AwaitingOwn p \<longrightarrow> inflight s = Some p)
   \<and> (\<forall>c c' p p'. callers s c = AwaitingOwn p \<and> callers s c' = AwaitingOwn p' \<longrightarrow> c = c')
   \<and> (\<forall>c p v. callers s c = Returned p v \<longrightarrow> settled_value s p = Some v)
   \<and> pending_count s \<le> 1"

subsection \<open>\<^verbatim>\<open>getAuthToken\<close> as a caller of the mutex\<close>

text \<open>
  A call of \<^verbatim>\<open>getAuthToken\<close> is suspended twice: at \<^verbatim>\<open>await supabase.auth.getSession()\<close>
  and, if it refreshes, at \<^verbatim>\<open>await refreshAuthToken()\<close>. It reaches the mutex only when
  it is resumed from the first. Caller \<open>c\<close> of \<^verbatim>\<open>getAuthToken\<close> makes its call of
  \<^verbatim>\<open>refreshAuthToken\<close> as caller \<open>c\<close> of the machine above. The events: the caller
  invokes \<^verbatim>\<open>getAuthToken\<close> (which calls \<^verbatim>\<open>getSession\<close>), the session arrives (the caller
  runs on to its \<^verbatim>\<open>return\<close> or into \<^verbatim>\<open>refreshAuthToken\<close>), an event of the machine
  above, and the result of \<^verbatim>\<open>refreshAuthToken\<close> arrives (the caller runs on to its
  \<^verbatim>\<open>return\<close>).
\<close>

datatype getter =
    NotAsked
  | AwaitingSession gs_result
  | AwaitingRefresh int string
  | Got "string option"

datatype gevent = Ask nat | SessionArrives nat | Mutex event | RefreshArrives nat

definition ask ::
  "'w env \<Rightarrow> nat \<Rightarrow> 'w sys \<times> (nat \<Rightarrow> getter) \<Rightarrow> 'w sys \<times> (nat \<Rightarrow> getter)" where
  "ask e c st =
     (case st of
        (s, g) \<Rightarrow>
          (case g c of
             NotAsked \<Rightarrow>
               (case call_getSession e s of
                  (r, s1) \<Rightarrow> (s1, g(c := AwaitingSession r)))
           | _ \<Rightarrow> st))"

definition session_arrives ::
  "'w env \<Rightarrow> nat \<Rightarrow> 'w sys \<times> (nat \<Rightarrow> getter) \<Rightarrow> 'w sys \<times> (nat \<Rightarrow> getter)" where
  "session_arrives e c st =
     (case st of
        (s, g) \<Rightarrow>
          (case g c of
             AwaitingSession r \<Rightarrow>
               (case r of
                  GS_Throws \<Rightarrow> (s, g(c := Got None))
                | GS_Returns sess err \<Rightarrow>
                    (case err of
                       Some _ \<Rightarrow> (s, g(c := Got None))
                     | None \<Rightarrow>
                         (case sess of
                            None \<Rightarrow> (s, g(c := Got None))
                          | Some x \<Rightarrow>
                              if \<not> truthy (access_token x) then (s, g(c := Got None))
                              else
                                let ttl = ttl_of (expiresAtMs x) (now e (world s)) in
                                if ttl \<le> CLOCK_SKEW_TOLERANCE_S then
                                  (enter c s, g(c := AwaitingRefresh ttl (access_token x)))
                                else (s, g(c := Got (Some (access_token x)))))))
           | _ \<Rightarrow> st))"

definition refresh_arrives ::
  "nat \<Rightarrow> 'w sys \<times> (nat \<Rightarrow> getter) \<Rightarrow> 'w sys \<times> (nat \<Rightarrow> getter)" where
  "refresh_arrives c st =
     (case st of
        (s, g) \<Rightarrow>
          (case g c of
             AwaitingRefresh ttl tok \<Rightarrow>
               (case callers s c of
                  Returned p freshToken \<Rightarrow>
                    (s, g(c := Got (case usable freshToken of
                                      Some t \<Rightarrow> Some t
                                    | None \<Rightarrow> if ttl > 0 then Some tok else None)))
                | _ \<Rightarrow> st)
           | _ \<Rightarrow> st))"

fun gstep ::
  "'w env \<Rightarrow> 'w sys \<times> (nat \<Rightarrow> getter) \<Rightarrow> gevent \<Rightarrow> 'w sys \<times> (nat \<Rightarrow> getter)" where
  "gstep e st (Ask c) = ask e c st"
| "gstep e st (SessionArrives c) = session_arrives e c st"
| "gstep e st (Mutex ev) = (step e (fst st) ev, snd st)"
| "gstep e st (RefreshArrives c) = refresh_arrives c st"

fun grun ::
  "'w env \<Rightarrow> 'w sys \<times> (nat \<Rightarrow> getter) \<Rightarrow> gevent list \<Rightarrow> 'w sys \<times> (nat \<Rightarrow> getter)" where
  "grun e st [] = st"
| "grun e st (ev # evs) = grun e (gstep e st ev) evs"

definition gstart :: "'w \<Rightarrow> 'w sys \<times> (nat \<Rightarrow> getter)" where
  "gstart w = (start w, (\<lambda>c. NotAsked))"

text \<open>Caller \<open>c\<close> from the arrival of its session to its return, when the refresh it
  starts is promise \<open>p\<close> and nothing else runs in between.\<close>

definition runs_on :: "nat \<Rightarrow> nat \<Rightarrow> gevent list" where
  "runs_on c p = [SessionArrives c, Mutex (Settle p), Mutex (Resume c), RefreshArrives c]"

section \<open>The session ready gate\<close>

text \<open>
  \<^verbatim>\<open>background/session_ready_gate.js\<close> creates one promise, \<^verbatim>\<open>sessionReady\<close>, keeps its
  resolving function in \<^verbatim>\<open>_resolve\<close>, and \<^verbatim>\<open>markSessionReady\<close> calls it. A promise is
  pending or fulfilled; its resolving function fulfils a pending promise and releases
  every handler that waits on it, and does nothing on a promise that is resolved already.
  A handler that awaits a fulfilled promise is released at once. The gate keeps the
  handlers that are suspended at \<^verbatim>\<open>await sessionReady\<close> and those that were released,
  in order.
\<close>

datatype readiness = NOT_READY | READY

record gate =
  sessionReady :: readiness
  suspended :: "nat list"
  released :: "nat list"

definition new_gate :: gate where
  "new_gate = \<lparr>sessionReady = NOT_READY, suspended = [], released = []\<rparr>"

definition markSessionReady :: "gate \<Rightarrow> gate" where
  "markSessionReady g =
     (case sessionReady g of
        NOT_READY \<Rightarrow>
          g\<lparr>sessionReady := READY, suspended := [], released := released g @ suspended g\<rparr>
      | READY \<Rightarrow> g)"

definition awaitReady :: "nat \<Rightarrow> gate \<Rightarrow> gate" where
  "awaitReady h g =
     (case sessionReady g of
        NOT_READY \<Rightarrow> g\<lparr>suspended := suspended g @ [h]\<rparr>
      | READY \<Rightarrow> g\<lparr>released := released g @ [h]\<rparr>)"

datatype gate_op = MarkReady | AwaitReady nat

fun gate_step :: "gate \<Rightarrow> gate_op \<Rightarrow> gate" where
  "gate_step g MarkReady = markSessionReady g"
| "gate_step g (AwaitReady h) = awaitReady h g"

fun gate_run :: "gate \<Rightarrow> gate_op list \<Rightarrow> gate" where
  "gate_run g [] = g"
| "gate_run g (x # xs) = gate_run (gate_step g x) xs"

section \<open>A test double\<close>

text \<open>
  The environment of \<^verbatim>\<open>tests/setup.js\<close>: a Supabase mock that reads the token, the
  refresh token and the expiry (in milliseconds) from a store, a \<^verbatim>\<open>refreshSession\<close>
  mock that returns a configured result or, by default, succeeds, and a \<^verbatim>\<open>setSession\<close>
  mock that stores what it is given. The clock stands still. The value under
  \<^verbatim>\<open>fitly-auth-token\<close> and a queue of responses that \<^verbatim>\<open>fetch\<close> serves are added for the
  runs below; \<^verbatim>\<open>JSON.parse\<close> knows the text \<^verbatim>\<open>null\<close> only.
\<close>

record mock_world =
  clock :: int
  auth_token :: "string option"
  stored_refresh_token :: "string option"
  expires_at_ms :: "int option"
  mockRefreshResult :: "rs_result option"
  fitly_auth_token :: "raw_value option"
  responses :: "response list"

definition mock_getSession :: "mock_world \<Rightarrow> gs_result \<times> mock_world" where
  "mock_getSession w =
     (case usable (auth_token w) of
        None \<Rightarrow> (GS_Returns None None, w)
      | Some token \<Rightarrow>
          (GS_Returns
             (Some \<lparr>access_token = token,
                    refresh_token = (case stored_refresh_token w of None \<Rightarrow> [] | Some r \<Rightarrow> r),
                    expires_at =
                      Some (case expires_at_ms w of
                              None \<Rightarrow> 0
                            | Some ms \<Rightarrow> if ms \<noteq> 0 then ms div 1000 else 0)\<rparr>)
             None, w))"

definition mock_store_session :: "session \<Rightarrow> mock_world \<Rightarrow> mock_world" where
  "mock_store_session x w =
     w\<lparr>auth_token := Some (access_token x),
       stored_refresh_token :=
         (if truthy (refresh_token x) then Some (refresh_token x) else stored_refresh_token w),
       expires_at_ms := Some (clock w + 3600 * 1000)\<rparr>"

definition mock_refreshSession :: "mock_world \<Rightarrow> rs_result \<times> mock_world" where
  "mock_refreshSession w =
     (case mockRefreshResult w of
        Some result \<Rightarrow>
          (case result of
             RS_Returns (Some x) err \<Rightarrow>
               if truthy (access_token x) then (result, mock_store_session x w)
               else (result, w)
           | _ \<Rightarrow> (result, w))
      | None \<Rightarrow>
          (RS_Returns
             (Some \<lparr>access_token = ''refreshed-supabase-token'',
                    refresh_token =
                      (case usable (stored_refresh_token w) of
                         None \<Rightarrow> ''mock-refresh-token''
                       | Some r \<Rightarrow> r),
                    expires_at = Some ((clock w + 3600 * 1000) div 1000)\<rparr>)
             None,
           w\<lparr>auth_token := Some ''refreshed-supabase-token'',
             expires_at_ms := Some (clock w + 3600 * 1000)\<rparr>))"

definition mock_setSession ::
  "string option \<Rightarrow> string \<Rightarrow> mock_world \<Rightarrow> ss_result \<times> mock_world" where
  "mock_setSession at rt w =
     (SS_Returns None,
      w\<lparr>auth_token := (case usable at of None \<Rightarrow> auth_token w | Some a \<Rightarrow> Some a),
        stored_refresh_token := (if truthy rt then Some rt else stored_refresh_token w)\<rparr>)"

definition mock_storageGet :: "string \<Rightarrow> mock_world \<Rightarrow> st_result \<times> mock_world" where
  "mock_storageGet k w =
     (ST_Returns (if k = ''fitly-auth-token'' then fitly_auth_token w else None), w)"

text \<open>
  \<^verbatim>\<open>JSON.parse\<close> and \<^verbatim>\<open>JSON.stringify\<close> of the test double: the text \<^verbatim>\<open>null\<close> and
  objects whose members are strings, written without white space and without escapes,
  as \<^verbatim>\<open>JSON.stringify\<close> writes a session of plain tokens. Any other text throws.
\<close>

definition dquote :: char where
  "dquote = CHR 0x22"

fun read_string :: "string \<Rightarrow> string \<Rightarrow> (string \<times> string) option" where
  "read_string acc [] = None"
| "read_string acc (c # cs) =
     (if c = dquote then Some (rev acc, cs) else read_string (c # acc) cs)"

fun read_members :: "nat \<Rightarrow> string \<Rightarrow> (string \<times> string) list option" where
  "read_members 0 cs = None"
| "read_members (Suc n) cs =
     (case cs of
        q # cs1 \<Rightarrow>
          if q \<noteq> dquote then None
          else
            (case read_string [] cs1 of
               None \<Rightarrow> None
             | Some (k, cs2) \<Rightarrow>
                 (case cs2 of
                    colon # q' # cs3 \<Rightarrow>
                      if colon \<noteq> CHR '':'' \<or> q' \<noteq> dquote then None
                      else
                        (case read_string [] cs3 of
                           None \<Rightarrow> None
                         | Some (v, cs4) \<Rightarrow>
                             if cs4 = ''}'' then Some [(k, v)]
                             else
                               (case cs4 of
                                  comma # cs5 \<Rightarrow>
                                    if comma \<noteq> CHR '','' then None
                                    else map_option ((#) (k, v)) (read_members n cs5)
                                | [] \<Rightarrow> None))
                  | _ \<Rightarrow> None))
      | [] \<Rightarrow> None)"

definition mock_jsonParse :: "string \<Rightarrow> json_result" where
  "mock_jsonParse str =
     (if str = ''null'' then JSON_Value None
      else if str = ''{}'' then
        JSON_Value (Some \<lparr>st_access_token = None, st_refresh_token = None\<rparr>)
      else
        (case str of
           brace # cs \<Rightarrow>
             if brace \<noteq> CHR ''{'' then JSON_Throws
             else
               (case read_members (length cs) cs of
                  None \<Rightarrow> JSON_Throws
                | Some members \<Rightarrow>
                    JSON_Value
                      (Some \<lparr>st_access_token = map_of members ''access_token'',
                             st_refresh_token = map_of members ''refresh_token''\<rparr>))
         | [] \<Rightarrow> JSON_Throws))"

definition json_member :: "string \<Rightarrow> string \<Rightarrow> string" where
  "json_member k v = dquote # k @ dquote # CHR '':'' # dquote # v @ [dquote]"

definition stringify_session :: "string \<Rightarrow> string \<Rightarrow> string" where
  "stringify_session at rt =
     ''{'' @ json_member ''access_token'' at @ '','' @ json_member ''refresh_token'' rt @ ''}''"

definition mock_fetch ::
  "string \<Rightarrow> fetch_options \<Rightarrow> mock_world \<Rightarrow> fetch_result \<times> mock_world" where
  "mock_fetch url opts w =
     (case responses w of
        [] \<Rightarrow> (Fetch_Throws \<lparr>message = ''Failed to fetch'', errorCode = None\<rparr>, w)
      | r # rs \<Rightarrow> (Fetch_Returns r, w\<lparr>responses := rs\<rparr>))"

definition mock_env :: "mock_world env" where
  "mock_env =
     \<lparr>getSession = mock_getSession,
      refreshSession = mock_refreshSession,
      setSession = mock_setSession,
      storageGet = mock_storageGet,
      jsonParse = mock_jsonParse,
      now = clock,
      fetch = mock_fetch\<rparr>"

text \<open>\<^verbatim>\<open>setMockToken(ttlSeconds)\<close>, at a clock that stands on a full second.\<close>

definition setMockToken :: "int \<Rightarrow> mock_world" where
  "setMockToken ttlSeconds =
     \<lparr>clock = 1700000000000,
      auth_token = Some ''mock-jwt-token'',
      stored_refresh_token = Some ''mock-refresh-token'',
      expires_at_ms = Some (1700000000000 + ttlSeconds * 1000),
      mockRefreshResult = None,
      fitly_auth_token = None,
      responses = []\<rparr>"

text \<open>\<^verbatim>\<open>setMockRefreshResult({ data: { session: null }, error: { message: ... } })\<close>\<close>

definition failing_refresh :: "mock_world \<Rightarrow> mock_world" where
  "failing_refresh w = w\<lparr>mockRefreshResult := Some (RS_Returns None (Some ''Server error''))\<rparr>"

text \<open>
  The identity client after a restart of the service worker, as the header of
  \<^verbatim>\<open>auth_state_manager.js\<close> describes it: with no session in memory
  \<^verbatim>\<open>refreshSession\<close> fails with "Auth session missing", and the session is still in
  the store under \<^verbatim>\<open>fitly-auth-token\<close>, as the text that the storage adapter wrote.
\<close>

definition restarted_env :: "mock_world env" where
  "restarted_env =
     mock_env\<lparr>refreshSession :=
       (\<lambda>w. case usable (auth_token w) of
               None \<Rightarrow> (RS_Returns None (Some ''Auth session missing''), w)
             | Some _ \<Rightarrow> mock_refreshSession w)\<rparr>"

definition restarted_world :: mock_world where
  "restarted_world =
     \<lparr>clock = 1700000000000,
      auth_token = None,
      stored_refresh_token = None,
      expires_at_ms = None,
      mockRefreshResult = None,
      fitly_auth_token =
        Some (RawString (stringify_session ''stored-jwt-token'' ''stored-refresh-token'')),
      responses = []\<rparr>"


text \<open>A request and two responses for the runs of \<^verbatim>\<open>makeAuthenticatedRequest\<close>.\<close>

definition get_request :: fetch_options where
  "get_request = \<lparr>http_method = ''GET'', headers = [(''Accept'', ''application/json'')],
                   body = None\<rparr>"

definition response_401 :: response where
  "response_401 = \<lparr>status = 401, payload = ''JWT expired''\<rparr>"

definition response_200 :: response where
  "response_200 = \<lparr>status = 200, payload = ''[]''\<rparr>"

definition serving :: "response list \<Rightarrow> mock_world \<Rightarrow> mock_world" where
  "serving rs w = w\<lparr>responses := rs\<rparr>"

text \<open>The module at rest: no refresh in flight, no call made yet.\<close>

definition idle :: "'w \<Rightarrow> 'w tm_state" where
  "idle w = \<lparr>world = w, calls = [], refreshPromise = None\<rparr>"

section \<open>Basic facts\<close>

lemma call_getSession_eq:
  "getSession e (world s) = (r, w) \<Longrightarrow>
   call_getSession e s = (r, s\<lparr>world := w, calls := calls s @ [GetSession]\<rparr>)"
  by (simp add: call_getSession_def)

lemma call_refreshSession_eq:
  "refreshSession e (world s) = (r, w) \<Longrightarrow>
   call_refreshSession e s = (r, s\<lparr>world := w, calls := calls s @ [RefreshSession]\<rparr>)"
  by (simp add: call_refreshSession_def)

lemma call_setSession_eq:
  "setSession e at rt (world s) = (r, w) \<Longrightarrow>
   call_setSession e at rt s = (r, s\<lparr>world := w, calls := calls s @ [SetSession at rt]\<rparr>)"
  by (simp add: call_setSession_def)

lemma call_storageGet_eq:
  "storageGet e k (world s) = (r, w) \<Longrightarrow>
   call_storageGet e k s = (r, s\<lparr>world := w, calls := calls s @ [StorageGet k]\<rparr>)"
  by (simp add: call_storageGet_def)

lemma call_fetch_eq:
  "fetch e url opts (world s) = (r, w) \<Longrightarrow>
   call_fetch e url opts s = (r, s\<lparr>world := w, calls := calls s @ [Fetch url opts]\<rparr>)"
  by (simp add: call_fetch_def)

lemmas mock_defs = mock_env_def mock_getSession_def mock_refreshSession_def
  mock_setSession_def mock_storageGet_def mock_jsonParse_def mock_fetch_def
  mock_store_session_def setMockToken_def failing_refresh_def idle_def usable_def truthy_def

subsection \<open>The calls a run adds\<close>

lemma storage_rescue_calls:
  "\<exists>cs. calls (snd (storage_rescue e s)) = calls s @ StorageGet ''fitly-auth-token'' # cs"
  by (auto simp: storage_rescue_def call_storageGet_def call_setSession_def
      call_refreshSession_def
      split: prod.splits option.splits ss_result.splits)

lemma doRefresh_calls:
  "\<exists>cs. calls (snd (doRefresh e s)) = calls s @ RefreshSession # cs"
proof -
  obtain r s1 where c: "call_refreshSession e s = (r, s1)" by force
  then have s1: "calls s1 = calls s @ [RefreshSession]"
    by (auto simp: call_refreshSession_def split: prod.splits)
  show ?thesis
  proof (cases "refreshed_token r")
    case None
    obtain cs where
      "calls (snd (storage_rescue e s1)) = calls s1 @ StorageGet ''fitly-auth-token'' # cs"
      using storage_rescue_calls by blast
    with None c s1 show ?thesis by (simp add: doRefresh_def)
  next
    case (Some t)
    with c s1 show ?thesis by (simp add: doRefresh_def)
  qed
qed

lemma refreshAuthToken_idle_calls:
  assumes "refreshPromise s = None"
  shows "\<exists>cs. calls (snd (refreshAuthToken e a s)) = calls s @ RefreshSession # cs"
proof -
  obtain cs where "calls (snd (doRefresh e s)) = calls s @ RefreshSession # cs"
    using doRefresh_calls by blast
  with assms show ?thesis
    by (auto simp: refreshAuthToken_def split: prod.splits)
qed

lemma fallback_check_calls:
  "calls (snd (fallback_check e s)) = calls s @ [GetSession]"
  by (auto simp: fallback_check_def call_getSession_def
      split: prod.splits gs_result.splits option.splits)

lemma refresh_or_fallback_idle_calls:
  assumes "refreshPromise s = None"
  shows "\<exists>cs. calls (snd (refresh_or_fallback e s)) = calls s @ RefreshSession # cs"
proof -
  obtain v s1 where r: "refreshAuthToken e None s = (v, s1)" by force
  obtain cs where cs: "calls s1 = calls s @ RefreshSession # cs"
    using refreshAuthToken_idle_calls[OF assms, of e None] r by auto
  show ?thesis
  proof (cases "usable v")
    case None
    with r cs fallback_check_calls[of e s1] show ?thesis
      by (auto simp: refresh_or_fallback_def split: prod.splits option.splits)
  next
    case (Some t)
    with r cs show ?thesis by (simp add: refresh_or_fallback_def)
  qed
qed

section \<open>The force-refresh threshold\<close>

text \<open>
  Claim C2. With a session whose TTL (the code's whole seconds) is at least 900,
  \<^verbatim>\<open>forceRefreshToken(false)\<close> returns the access token of that session, and the one call
  it makes is the \<^verbatim>\<open>getSession\<close> that read it: no refresh, and the module variable is
  untouched. The bound is sharp: below 900, with no refresh in flight, the next call
  after \<^verbatim>\<open>getSession\<close> is \<^verbatim>\<open>refreshSession\<close>.
\<close>

theorem forceRefreshToken_threshold:
  assumes gs: "getSession e (world s) = (GS_Returns (Some x) err, w)"
      and tok: "truthy (access_token x)"
  shows "(900 \<le> ttl_of (expiresAtMs x) (now e w) \<longrightarrow>
            forceRefreshToken e False s =
              (Inr (access_token x), s\<lparr>world := w, calls := calls s @ [GetSession]\<rparr>))
       \<and> (ttl_of (expiresAtMs x) (now e w) < 900 \<and> refreshPromise s = None \<longrightarrow>
            (\<exists>cs. new_calls s (snd (forceRefreshToken e False s))
                    = GetSession # RefreshSession # cs))"
proof (intro conjI impI)
  assume "900 \<le> ttl_of (expiresAtMs x) (now e w)"
  with gs tok show "forceRefreshToken e False s =
      (Inr (access_token x), s\<lparr>world := w, calls := calls s @ [GetSession]\<rparr>)"
    by (simp add: forceRefreshToken_def ttl_check_def call_getSession_eq)
next
  assume a: "ttl_of (expiresAtMs x) (now e w) < 900 \<and> refreshPromise s = None"
  let ?s1 = "s\<lparr>world := w, calls := calls s @ [GetSession]\<rparr>"
  from gs tok a have eq: "forceRefreshToken e False s = refresh_or_fallback e ?s1"
    by (simp add: forceRefreshToken_def ttl_check_def call_getSession_eq)
  from a have "refreshPromise ?s1 = None" by simp
  then obtain cs where
    "calls (snd (refresh_or_fallback e ?s1)) = calls ?s1 @ RefreshSession # cs"
    using refresh_or_fallback_idle_calls by blast
  with eq show "\<exists>cs. new_calls s (snd (forceRefreshToken e False s))
                    = GetSession # RefreshSession # cs"
    by (simp add: new_calls_def)
qed

theorem forceRefreshToken_threshold_witness:
  "forceRefreshToken mock_env False (idle (setMockToken 900)) =
     (Inr ''mock-jwt-token'', (idle (setMockToken 900))\<lparr>calls := [GetSession]\<rparr>)
   \<and> (\<exists>cs. new_calls (idle (setMockToken 899))
              (snd (forceRefreshToken mock_env False (idle (setMockToken 899))))
            = GetSession # RefreshSession # cs)"
proof -
  let ?x = "\<lambda>t. \<lparr>access_token = ''mock-jwt-token'', refresh_token = ''mock-refresh-token'',
             expires_at = Some (1700000000 + t)\<rparr>"
  have g: "getSession mock_env (world (idle (setMockToken t))) =
             (GS_Returns (Some (?x t)) None, setMockToken t)" for t
    by (simp add: mock_defs)
  have t: "truthy (access_token (?x t))" for t by (simp add: truthy_def)
  have a: "900 \<le> ttl_of (expiresAtMs (?x 900)) (now mock_env (setMockToken 900))"
    by (simp add: ttl_of_def expiresAtMs_def mock_env_def setMockToken_def)
  have b: "ttl_of (expiresAtMs (?x 899)) (now mock_env (setMockToken 899)) < 900
           \<and> refreshPromise (idle (setMockToken 899)) = None"
    by (simp add: ttl_of_def expiresAtMs_def mock_env_def setMockToken_def idle_def)
  from forceRefreshToken_threshold[OF g t, of 900] a
       forceRefreshToken_threshold[OF g t, of 899] b
  show ?thesis by (simp add: idle_def)
qed

section \<open>Running the definitions\<close>

lemmas run_defs = forceRefreshToken_def ttl_check_def refresh_or_fallback_def
  fallback_check_def getAuthToken_def refreshAuthToken_def doRefresh_def storage_rescue_def
  stored_object_def raw_falsy_def parse_raw_def refreshed_token_def
  call_getSession_def call_refreshSession_def call_setSession_def call_storageGet_def
  call_fetch_def ttl_of_def expiresAtMs_def fallbackTTL_def CLOCK_SKEW_TOLERANCE_S_def

section \<open>Whole seconds\<close>




section \<open>The fallback of \<^verbatim>\<open>forceRefreshToken\<close>\<close>




section \<open>\<^verbatim>\<open>getAuthToken\<close>\<close>




section \<open>The two tiers of \<^verbatim>\<open>_doRefresh\<close>\<close>

text \<open>
  Claim C5. \<^verbatim>\<open>_doRefresh\<close> first calls the identity client's \<^verbatim>\<open>refreshSession\<close>; if that
  yields a token it is returned and nothing else is called. Only otherwise the store is
  read. The stored value is a session \<open>parsed\<close> if it is an object already, or a
  non-empty text that \<^verbatim>\<open>JSON.parse\<close> turns into that object. If the read throws, the
  value is absent or empty, \<^verbatim>\<open>JSON.parse\<close> throws or gives no object, or the session
  has no refresh token, the result is \<^verbatim>\<open>null\<close> and nothing else is called. Otherwise
  \<^verbatim>\<open>setSession\<close> is called with the stored access and refresh token, and after it has
  succeeded \<^verbatim>\<open>refreshSession\<close> is called once more, whose token, or \<^verbatim>\<open>null\<close>, is the
  result. A \<^verbatim>\<open>setSession\<close> that fails or throws is one of the failures that give
  \<^verbatim>\<open>null\<close>: the session was not installed and no retry follows. The recorded calls give
  the order and the count in each case.
\<close>

theorem doRefresh_two_tiers:
  assumes r1: "refreshSession e (world s) = (r1, w1)"
  shows "(refreshed_token r1 = Some t \<longrightarrow>
            doRefresh e s = (Some t, s\<lparr>world := w1, calls := calls s @ [RefreshSession]\<rparr>))
       \<and> (refreshed_token r1 = None
            \<and> storageGet e ''fitly-auth-token'' w1 = (stored, w2) \<longrightarrow>
           (stored = ST_Throws \<or> stored = ST_Returns None
              \<or> stored = ST_Returns (Some (RawString []))
              \<or> (stored = ST_Returns (Some (RawString str))
                   \<and> (jsonParse e str = JSON_Throws \<or> jsonParse e str = JSON_Value None))
              \<or> ((stored = ST_Returns (Some (RawObject parsed))
                     \<or> (stored = ST_Returns (Some (RawString str)) \<and> truthy str
                          \<and> jsonParse e str = JSON_Value (Some parsed)))
                   \<and> usable (st_refresh_token parsed) = None)
            \<longrightarrow> doRefresh e s =
                  (None, s\<lparr>world := w2,
                     calls := calls s @ [RefreshSession, StorageGet ''fitly-auth-token'']\<rparr>))
         \<and> ((stored = ST_Returns (Some (RawObject parsed))
                \<or> (stored = ST_Returns (Some (RawString str)) \<and> truthy str
                     \<and> jsonParse e str = JSON_Value (Some parsed)))
              \<and> usable (st_refresh_token parsed) = Some rt
              \<and> setSession e (st_access_token parsed) rt w2 = (ss, w3) \<longrightarrow>
              (ss = SS_Returns None \<and> refreshSession e w3 = (r2, w4) \<longrightarrow>
                 doRefresh e s =
                   (refreshed_token r2,
                    s\<lparr>world := w4,
                      calls := calls s @ [RefreshSession, StorageGet ''fitly-auth-token'',
                                SetSession (st_access_token parsed) rt, RefreshSession]\<rparr>))
            \<and> (ss \<noteq> SS_Returns None \<longrightarrow>
                 doRefresh e s =
                   (None,
                    s\<lparr>world := w3,
                      calls := calls s @ [RefreshSession, StorageGet ''fitly-auth-token'',
                                SetSession (st_access_token parsed) rt]\<rparr>))))"
proof -
  have obj: "stored_object e (ST_Returns (Some (RawObject parsed))) = Some parsed"
    by (simp add: stored_object_def raw_falsy_def parse_raw_def)
  have str_case: "stored_object e (ST_Returns (Some (RawString str))) = Some parsed"
    if "truthy str" "jsonParse e str = JSON_Value (Some parsed)"
    using that by (simp add: stored_object_def raw_falsy_def parse_raw_def)
  have none: "stored_object e ST_Throws = None" "stored_object e (ST_Returns None) = None"
    "stored_object e (ST_Returns (Some (RawString []))) = None"
    by (simp_all add: stored_object_def raw_falsy_def truthy_def)
  have bad: "stored_object e (ST_Returns (Some (RawString str))) = None"
    if "jsonParse e str = JSON_Throws \<or> jsonParse e str = JSON_Value None"
    using that by (auto simp: stored_object_def raw_falsy_def parse_raw_def)
  show ?thesis
    using r1 obj str_case none bad
    by (auto simp: doRefresh_def storage_rescue_def call_refreshSession_eq call_storageGet_eq
        call_setSession_eq split: ss_result.splits option.splits)
qed

theorem doRefresh_two_tiers_witness:
  "doRefresh restarted_env (idle restarted_world) =
     (Some ''refreshed-supabase-token'',
      (idle (restarted_world\<lparr>auth_token := Some ''refreshed-supabase-token'',
               stored_refresh_token := Some ''stored-refresh-token'',
               expires_at_ms := Some 1700003600000\<rparr>))
        \<lparr>calls := [RefreshSession, StorageGet ''fitly-auth-token'',
                   SetSession (Some ''stored-jwt-token'') ''stored-refresh-token'',
                   RefreshSession]\<rparr>)
   \<and> doRefresh mock_env (idle (setMockToken 120)) =
     (Some ''refreshed-supabase-token'',
      (idle ((setMockToken 120)\<lparr>auth_token := Some ''refreshed-supabase-token'',
               expires_at_ms := Some 1700003600000\<rparr>))\<lparr>calls := [RefreshSession]\<rparr>)
   \<and> doRefresh mock_env (idle (failing_refresh (setMockToken 120))) =
     (None, (idle (failing_refresh (setMockToken 120)))
        \<lparr>calls := [RefreshSession, StorageGet ''fitly-auth-token'']\<rparr>)"
proof -
  let ?txt = "stringify_session ''stored-jwt-token'' ''stored-refresh-token''"
  let ?obj = "\<lparr>st_access_token = Some ''stored-jwt-token'',
               st_refresh_token = Some ''stored-refresh-token''\<rparr>"
  let ?w3 = "restarted_world\<lparr>auth_token := Some ''stored-jwt-token'',
               stored_refresh_token := Some ''stored-refresh-token''\<rparr>"
  let ?w4 = "restarted_world\<lparr>auth_token := Some ''refreshed-supabase-token'',
               stored_refresh_token := Some ''stored-refresh-token'',
               expires_at_ms := Some 1700003600000\<rparr>"
  let ?new = "\<lparr>access_token = ''refreshed-supabase-token'',
               refresh_token = ''stored-refresh-token'', expires_at = Some 1700003600\<rparr>"
  have parse: "jsonParse restarted_env ?txt = JSON_Value (Some ?obj)"
    by (simp add: restarted_env_def mock_env_def mock_jsonParse_def stringify_session_def
        json_member_def dquote_def)
  have r1: "refreshSession restarted_env (world (idle restarted_world)) =
              (RS_Returns None (Some ''Auth session missing''), restarted_world)"
    by (simp add: restarted_env_def restarted_world_def mock_defs)
  have a: "refreshed_token (RS_Returns None (Some ''Auth session missing'')) = None
      \<and> storageGet restarted_env ''fitly-auth-token'' restarted_world
          = (ST_Returns (Some (RawString ?txt)), restarted_world)"
    by (simp add: restarted_env_def restarted_world_def mock_defs refreshed_token_def)
  have b: "truthy ?txt \<and> usable (st_refresh_token ?obj) = Some ''stored-refresh-token''
      \<and> setSession restarted_env (st_access_token ?obj) ''stored-refresh-token'' restarted_world
          = (SS_Returns None, ?w3)"
    by (simp add: restarted_env_def restarted_world_def mock_defs stringify_session_def)
  have c: "refreshSession restarted_env ?w3 = (RS_Returns (Some ?new) None, ?w4)"
    by (simp add: restarted_env_def restarted_world_def mock_defs)
  have d: "refreshed_token (RS_Returns (Some ?new) None) = Some ''refreshed-supabase-token''"
    by (simp add: refreshed_token_def truthy_def)
  note m = doRefresh_two_tiers[OF r1, where stored = "ST_Returns (Some (RawString ?txt))"
        and ?w2.0 = restarted_world and str = ?txt and parsed = ?obj
        and rt = "''stored-refresh-token''"
        and ss = "SS_Returns None" and ?w3.0 = ?w3 and ?r2.0 = "RS_Returns (Some ?new) None"
        and ?w4.0 = ?w4]
  have "doRefresh restarted_env (idle restarted_world) =
     (refreshed_token (RS_Returns (Some ?new) None),
      (idle restarted_world)\<lparr>world := ?w4,
          calls := calls (idle restarted_world) @ [RefreshSession, StorageGet ''fitly-auth-token'',
                   SetSession (st_access_token ?obj) ''stored-refresh-token'',
                   RefreshSession]\<rparr>)"
    using m a b c parse by blast
  then have first: "doRefresh restarted_env (idle restarted_world) =
     (Some ''refreshed-supabase-token'',
      (idle ?w4)\<lparr>calls := [RefreshSession, StorageGet ''fitly-auth-token'',
                   SetSession (Some ''stored-jwt-token'') ''stored-refresh-token'',
                   RefreshSession]\<rparr>)"
    by (simp add: d idle_def)
  let ?n2 = "\<lparr>access_token = ''refreshed-supabase-token'',
               refresh_token = ''mock-refresh-token'', expires_at = Some 1700003600\<rparr>"
  let ?v2 = "(setMockToken 120)\<lparr>auth_token := Some ''refreshed-supabase-token'',
               expires_at_ms := Some 1700003600000\<rparr>"
  have r2: "refreshSession mock_env (world (idle (setMockToken 120))) =
              (RS_Returns (Some ?n2) None, ?v2)"
    by (simp add: mock_defs)
  have e: "refreshed_token (RS_Returns (Some ?n2) None) = Some ''refreshed-supabase-token''"
    by (simp add: refreshed_token_def truthy_def)
  have second: "doRefresh mock_env (idle (setMockToken 120)) =
     (Some ''refreshed-supabase-token'', (idle ?v2)\<lparr>calls := [RefreshSession]\<rparr>)"
    using doRefresh_two_tiers[OF r2, where t = "''refreshed-supabase-token''"] e
    by (simp add: idle_def)
  let ?wf = "failing_refresh (setMockToken 120)"
  have r3: "refreshSession mock_env (world (idle ?wf)) =
              (RS_Returns None (Some ''Server error''), ?wf)"
    by (simp add: mock_defs)
  have f: "refreshed_token (RS_Returns None (Some ''Server error'')) = None
      \<and> storageGet mock_env ''fitly-auth-token'' ?wf = (ST_Returns None, ?wf)"
    by (simp add: mock_defs refreshed_token_def)
  have third: "doRefresh mock_env (idle ?wf) =
     (None, (idle ?wf)\<lparr>calls := [RefreshSession, StorageGet ''fitly-auth-token'']\<rparr>)"
    using doRefresh_two_tiers[OF r3, where stored = "ST_Returns None" and ?w2.0 = ?wf] f
    by (simp add: idle_def)
  from first second third show ?thesis by simp
qed

section \<open>The clock-skew tolerance\<close>

text \<open>
  Claim C6. The claim says that a token is treated as expired only from a TTL of -60
  downwards. The code compares with zero in both places: with a session that expired 30
  seconds ago and a refresh that fails, \<^verbatim>\<open>forceRefreshToken\<close> throws
  \<^verbatim>\<open>REFRESH_FAILED\<close> and \<^verbatim>\<open>getAuthToken\<close> returns \<^verbatim>\<open>null\<close>. The comments of the module
  say otherwise ("accept tokens that appear expired by up to 60s", "fallback to current
  token if still valid (with clock skew tolerance)").
\<close>

theorem clock_skew_not_applied:
  "fst (forceRefreshToken mock_env False (idle (failing_refresh (setMockToken (- 30)))))
     = Inl refresh_failed_error
   \<and> fst (getAuthToken mock_env (idle (failing_refresh (setMockToken (- 30))))) = None"
  by (simp add: run_defs mock_defs)

section \<open>The argument of \<^verbatim>\<open>refreshAuthToken\<close>\<close>

text \<open>
  Claim C10. \<^verbatim>\<open>refreshAuthToken\<close> never reads its parameter: from the same state, any two
  arguments (none included) give the same result and the same final state, calls
  included.
\<close>

theorem refreshAuthToken_ignores_argument:
  "refreshAuthToken e a s = refreshAuthToken e b s"
  by (simp add: refreshAuthToken_def)

section \<open>\<^verbatim>\<open>makeAuthenticatedRequest\<close>\<close>

text \<open>Neither \<^verbatim>\<open>getAuthToken\<close> nor \<^verbatim>\<open>refreshAuthToken\<close> calls \<^verbatim>\<open>fetch\<close>.\<close>

lemma storage_rescue_no_fetch:
  "\<exists>cs. calls (snd (storage_rescue e s)) = calls s @ cs \<and> filter is_fetch cs = []"
  by (auto simp: storage_rescue_def call_storageGet_def call_setSession_def
      call_refreshSession_def is_fetch_def
      split: prod.splits option.splits ss_result.splits)

lemma doRefresh_no_fetch:
  "\<exists>cs. calls (snd (doRefresh e s)) = calls s @ cs \<and> filter is_fetch cs = []"
proof -
  obtain r s1 where c: "call_refreshSession e s = (r, s1)" by force
  then have s1: "calls s1 = calls s @ [RefreshSession]"
    by (auto simp: call_refreshSession_def split: prod.splits)
  show ?thesis
  proof (cases "refreshed_token r")
    case None
    obtain cs where
      "calls (snd (storage_rescue e s1)) = calls s1 @ cs" "filter is_fetch cs = []"
      using storage_rescue_no_fetch by blast
    with None c s1 show ?thesis by (simp add: doRefresh_def is_fetch_def)
  next
    case (Some t)
    with c s1 show ?thesis by (simp add: doRefresh_def is_fetch_def)
  qed
qed

lemma refreshAuthToken_no_fetch:
  "\<exists>cs. calls (snd (refreshAuthToken e a s)) = calls s @ cs \<and> filter is_fetch cs = []"
proof (cases "refreshPromise s")
  case None
  obtain cs where "calls (snd (doRefresh e s)) = calls s @ cs" "filter is_fetch cs = []"
    using doRefresh_no_fetch by blast
  with None show ?thesis
    by (auto simp: refreshAuthToken_def split: prod.splits)
next
  case (Some p)
  then show ?thesis
    by (auto simp: refreshAuthToken_def split: prod.splits outcome.splits)
qed

lemma getAuthToken_no_fetch:
  "\<exists>cs. calls (snd (getAuthToken e s)) = calls s @ cs \<and> filter is_fetch cs = []"
proof -
  obtain g s1 where c: "call_getSession e s = (g, s1)" by force
  then have s1: "calls s1 = calls s @ [GetSession]"
    by (auto simp: call_getSession_def split: prod.splits)
  obtain cs where cs: "calls (snd (refreshAuthToken e None s1)) = calls s1 @ cs"
      "filter is_fetch cs = []"
    using refreshAuthToken_no_fetch by blast
  have "calls (snd (getAuthToken e s)) = calls s1
      \<or> calls (snd (getAuthToken e s)) = calls (snd (refreshAuthToken e None s1))"
    using c by (auto simp: getAuthToken_def Let_def
        split: gs_result.splits option.splits prod.splits)
  with s1 cs show ?thesis by (auto simp: is_fetch_def)
qed

lemma refreshAuthToken_no_fetch_to:
  assumes "refreshAuthToken e a s = (v, s')"
  shows "\<exists>cs. calls s' = calls s @ cs \<and> filter is_fetch cs = []"
  using refreshAuthToken_no_fetch[of e a s] unfolding assms by simp

lemma getAuthToken_no_fetch_to:
  assumes "getAuthToken e s = (v, s')"
  shows "\<exists>cs. calls s' = calls s @ cs \<and> filter is_fetch cs = []"
  using getAuthToken_no_fetch[of e s] unfolding assms by simp



text \<open>
  Claim C9. When the first response is a 401 and the refresh yields no token,
  \<^verbatim>\<open>makeAuthenticatedRequest\<close> returns that first response, in the state the refresh
  left: it does not throw, and the first \<^verbatim>\<open>fetch\<close> is the only one of the run.
\<close>

theorem makeAuthenticatedRequest_refresh_without_token:
  assumes tok: "getAuthToken e s = (token, s1)"
      and t: "usable token = Some t"
      and first: "fetch e url (with_bearer opts t) (world s1) = (Fetch_Returns resp, w2)"
      and unauth: "status resp = 401"
      and s2: "s2 = s1\<lparr>world := w2, calls := calls s1 @ [Fetch url (with_bearer opts t)]\<rparr>"
      and ref: "refreshAuthToken e None s2 = (newToken, s3)"
      and none: "usable newToken = None"
  shows "makeAuthenticatedRequest e url opts s = (Inr resp, s3)
       \<and> filter is_fetch (new_calls s s3) = [Fetch url (with_bearer opts t)]"
proof -
  obtain cs where cs: "calls s1 = calls s @ cs" "filter is_fetch cs = []"
    using getAuthToken_no_fetch_to[OF tok] by blast
  obtain ds where ds: "calls s3 = calls s2 @ ds" "filter is_fetch ds = []"
    using refreshAuthToken_no_fetch_to[OF ref] by blast
  have "filter is_fetch (new_calls s s3) = [Fetch url (with_bearer opts t)]"
    using cs ds s2 by (simp add: new_calls_def is_fetch_def)
  moreover have "makeAuthenticatedRequest e url opts s = (Inr resp, s3)"
    using tok t first unauth ref none unfolding s2
    by (simp add: makeAuthenticatedRequest_def call_fetch_eq)
  ultimately show ?thesis by simp
qed

theorem makeAuthenticatedRequest_refresh_without_token_witness:
  "fst (makeAuthenticatedRequest mock_env ''https://api.fitly/outfits'' get_request
          (idle (serving [response_401, response_200] (failing_refresh (setMockToken 1200)))))
     = Inr response_401
   \<and> filter is_fetch (calls (snd (makeAuthenticatedRequest mock_env ''https://api.fitly/outfits''
          get_request
          (idle (serving [response_401, response_200] (failing_refresh (setMockToken 1200)))))))
     = [Fetch ''https://api.fitly/outfits'' (with_bearer get_request ''mock-jwt-token'')]"
proof -
  let ?url = "''https://api.fitly/outfits''"
  let ?w = "serving [response_401, response_200] (failing_refresh (setMockToken 1200))"
  let ?w2 = "serving [response_200] (failing_refresh (setMockToken 1200))"
  let ?s1 = "(idle ?w)\<lparr>calls := [GetSession]\<rparr>"
  let ?s2 = "?s1\<lparr>world := ?w2,
               calls := calls ?s1 @ [Fetch ?url (with_bearer get_request ''mock-jwt-token'')]\<rparr>"
  let ?s3 = "?s2\<lparr>calls := calls ?s2 @ [RefreshSession, StorageGet ''fitly-auth-token'']\<rparr>"
  have tok: "getAuthToken mock_env (idle ?w) = (Some ''mock-jwt-token'', ?s1)"
    by (simp add: run_defs mock_defs serving_def)
  have t: "usable (Some ''mock-jwt-token'') = Some ''mock-jwt-token''"
    by (simp add: usable_def truthy_def)
  have first: "fetch mock_env ?url (with_bearer get_request ''mock-jwt-token'') (world ?s1)
          = (Fetch_Returns response_401, ?w2)"
    by (simp add: mock_defs serving_def)
  have unauth: "status response_401 = 401" by (simp add: response_401_def)
  have ref: "refreshAuthToken mock_env None ?s2 = (None, ?s3)"
    by (simp add: run_defs mock_defs serving_def)
  have none: "usable None = None" by (simp add: usable_def)
  have n: "new_calls (idle ?w) s' = calls s'" for s' :: "mock_world tm_state"
    by (simp add: new_calls_def idle_def)
  from makeAuthenticatedRequest_refresh_without_token[OF tok t first unauth refl ref none]
  show ?thesis by (simp add: n)
qed

section \<open>The session ready gate is a latch\<close>

lemma gate_step_ready: "sessionReady g = READY \<Longrightarrow> sessionReady (gate_step g x) = READY"
  by (cases x) (simp_all add: markSessionReady_def awaitReady_def)

lemma gate_run_ready: "sessionReady g = READY \<Longrightarrow> sessionReady (gate_run g xs) = READY"
proof (induction xs arbitrary: g)
  case Nil
  then show ?case by simp
next
  case (Cons x xs)
  from Cons.prems have "sessionReady (gate_step g x) = READY" by (rule gate_step_ready)
  then show ?case by (simp add: Cons.IH)
qed

lemma markSessionReady_ready: "sessionReady (markSessionReady g) = READY"
  by (cases "sessionReady g") (simp_all add: markSessionReady_def)

lemma markSessionReady_noop: "sessionReady g = READY \<Longrightarrow> markSessionReady g = g"
  by (simp add: markSessionReady_def)

text \<open>
  Claim C8. Calling \<^verbatim>\<open>markSessionReady\<close> a second time changes nothing, neither right
  after the first call nor after any further operations on the gate. A handler that
  awaits \<^verbatim>\<open>sessionReady\<close> after \<^verbatim>\<open>markSessionReady\<close> is released at once: it joins the
  released handlers and is not suspended. Once the gate is ready it stays ready under
  every sequence of operations the module offers.
\<close>

theorem session_ready_gate_latch:
  "markSessionReady (markSessionReady g) = markSessionReady g
   \<and> markSessionReady (gate_run (markSessionReady g) xs) = gate_run (markSessionReady g) xs
   \<and> awaitReady h (markSessionReady g) =
       (markSessionReady g)\<lparr>released := released (markSessionReady g) @ [h]\<rparr>
   \<and> sessionReady (gate_run (markSessionReady g) xs) = READY
   \<and> (sessionReady g = READY \<longrightarrow> sessionReady (gate_run g xs) = READY)"
proof -
  have r: "sessionReady (markSessionReady g) = READY" by (rule markSessionReady_ready)
  then have rr: "sessionReady (gate_run (markSessionReady g) xs) = READY"
    by (rule gate_run_ready)
  have "markSessionReady (markSessionReady g) = markSessionReady g"
    using r by (rule markSessionReady_noop)
  moreover have "markSessionReady (gate_run (markSessionReady g) xs)
      = gate_run (markSessionReady g) xs"
    using rr by (rule markSessionReady_noop)
  moreover have "awaitReady h (markSessionReady g) =
       (markSessionReady g)\<lparr>released := released (markSessionReady g) @ [h]\<rparr>"
    using r by (simp add: awaitReady_def)
  ultimately show ?thesis using rr gate_run_ready by blast
qed

theorem session_ready_gate_latch_witness:
  "gate_run new_gate [AwaitReady 1, AwaitReady 2, MarkReady, MarkReady, AwaitReady 3, MarkReady]
     = \<lparr>sessionReady = READY, suspended = [], released = [1, 2, 3]\<rparr>
   \<and> gate_run new_gate [AwaitReady 1, AwaitReady 2, MarkReady, AwaitReady 3]
     = \<lparr>sessionReady = READY, suspended = [], released = [1, 2, 3]\<rparr>"
proof -
  let ?g = "gate_run new_gate [AwaitReady 1, AwaitReady 2, MarkReady]"
  have g: "?g = \<lparr>sessionReady = READY, suspended = [], released = [1, 2]\<rparr>"
    by (simp add: new_gate_def markSessionReady_def awaitReady_def)
  then have "sessionReady ?g = READY" by simp
  with session_ready_gate_latch[of ?g "[MarkReady, AwaitReady 3, MarkReady]" 3]
  have "sessionReady (gate_run ?g [MarkReady, AwaitReady 3, MarkReady]) = READY"
    by blast
  then show ?thesis
    by (simp add: new_gate_def markSessionReady_def awaitReady_def)
qed

section \<open>The refresh mutex\<close>

subsection \<open>\<^verbatim>\<open>_doRefresh\<close> touches the world and the calls only\<close>



subsection \<open>The invariant\<close>




lemma settled_value_frame [simp]:
  "settled_value (s\<lparr>callers := f\<rparr>) p = settled_value s p"
  "settled_value (s\<lparr>inflight := i\<rparr>) p = settled_value s p"
  "settled_value (s\<lparr>world := w\<rparr>) p = settled_value s p"
  "settled_value (s\<lparr>calls := cs\<rparr>) p = settled_value s p"
  by (simp_all add: settled_value_def)

lemma pending_count_frame [simp]:
  "pending_count (s\<lparr>callers := f\<rparr>) = pending_count s"
  "pending_count (s\<lparr>inflight := i\<rparr>) = pending_count s"
  "pending_count (s\<lparr>world := w\<rparr>) = pending_count s"
  "pending_count (s\<lparr>calls := cs\<rparr>) = pending_count s"
  by (simp_all add: pending_count_def)













subsection \<open>Callers that arrive while the refresh is in flight\<close>


lemma storage_rescue_scheme:
  "storage_rescue e s =
     (fst (storage_rescue e \<lparr>world = world s, calls = calls s\<rparr>),
      s\<lparr>world := world (snd (storage_rescue e \<lparr>world = world s, calls = calls s\<rparr>)),
        calls := calls (snd (storage_rescue e \<lparr>world = world s, calls = calls s\<rparr>))\<rparr>)"
  by (auto simp: storage_rescue_def call_storageGet_def call_setSession_def
      call_refreshSession_def
      split: prod.splits option.splits ss_result.splits)

lemma doRefresh_scheme:
  "doRefresh e s =
     (fst (doRefresh e \<lparr>world = world s, calls = calls s\<rparr>),
      s\<lparr>world := world (snd (doRefresh e \<lparr>world = world s, calls = calls s\<rparr>)),
        calls := calls (snd (doRefresh e \<lparr>world = world s, calls = calls s\<rparr>))\<rparr>)"
proof -
  obtain r w where r: "refreshSession e (world s) = (r, w)" by force
  show ?thesis
  proof (cases "refreshed_token r")
    case (Some t)
    with r show ?thesis by (simp add: doRefresh_def call_refreshSession_def)
  next
    case None
    let ?s1 = "s\<lparr>world := w, calls := calls s @ [RefreshSession]\<rparr>"
    let ?t1 = "\<lparr>world = w, calls = calls s @ [RefreshSession]\<rparr>"
    have a: "doRefresh e s = storage_rescue e ?s1"
      using r None by (simp add: doRefresh_def call_refreshSession_def)
    have b: "doRefresh e \<lparr>world = world s, calls = calls s\<rparr> = storage_rescue e ?t1"
      using r None by (simp add: doRefresh_def call_refreshSession_def)
    show ?thesis
      unfolding a b by (subst storage_rescue_scheme) simp
  qed
qed




subsection \<open>The embedded functions and the machine\<close>

text \<open>From rest, \<^verbatim>\<open>refreshAuthToken\<close> is one run of \<^verbatim>\<open>_doRefresh\<close>; with a refresh in
  flight it yields what that promise yields and makes no call.\<close>

lemma mutex_inv_frame [simp]:
  "mutex_inv (s\<lparr>world := w\<rparr>) = mutex_inv s"
  "mutex_inv (s\<lparr>calls := cs\<rparr>) = mutex_inv s"
  by (simp_all add: mutex_inv_def)





text \<open>A single call of \<^verbatim>\<open>getAuthToken\<close> on the machine, with nothing else running,
  returns what the function \<open>getAuthToken\<close> returns, in the same world and with the same
  calls.\<close>

lemma getter_agrees:
  "snd (grun e (gstart w) (Ask c # runs_on c 0)) c = Got (fst (getAuthToken e (idle w)))
   \<and> world (fst (grun e (gstart w) (Ask c # runs_on c 0)))
       = world (snd (getAuthToken e (idle w)))
   \<and> calls (fst (grun e (gstart w) (Ask c # runs_on c 0)))
       = calls (snd (getAuthToken e (idle w)))
   \<and> inflight (fst (grun e (gstart w) (Ask c # runs_on c 0))) = None"
proof -
  obtain g w1 where gs: "getSession e w = (g, w1)" by force
  let ?S1 = "\<lparr>world = w1, calls = [GetSession], inflight = None, promises = [],
              callers = (\<lambda>x. NotCalled)\<rparr>"
  let ?G1 = "(\<lambda>x. NotAsked)(c := AwaitingSession g)"
  let ?s1 = "\<lparr>world = w1, calls = [GetSession], refreshPromise = None\<rparr>"
  have a: "ask e c (gstart w) = (?S1, ?G1)"
    using gs by (simp add: gstart_def start_def ask_def call_getSession_def)
  have seq1: "call_getSession e (idle w) = (g, ?s1)"
    using gs by (simp add: idle_def call_getSession_def)
  define D where "D = doRefresh e \<lparr>world = w1, calls = [GetSession]\<rparr>"
  have refresh_seq: "refreshAuthToken e None ?s1 =
      (fst D, \<lparr>world = world (snd D), calls = calls (snd D), refreshPromise = None\<rparr>)"
    by (subst refreshAuthToken_def, subst doRefresh_scheme) (simp add: D_def)
  show ?thesis
  proof (cases "\<exists>x. g = GS_Returns (Some x) None \<and> truthy (access_token x)
        \<and> ttl_of (expiresAtMs x) (now e w1) \<le> CLOCK_SKEW_TOLERANCE_S")
    case False
    define r where "r =
      (case g of
         GS_Throws \<Rightarrow> None
       | GS_Returns sess err \<Rightarrow>
           (case err of
              Some _ \<Rightarrow> None
            | None \<Rightarrow>
                (case sess of
                   None \<Rightarrow> None
                 | Some x \<Rightarrow> if truthy (access_token x) then Some (access_token x) else None)))"
    have b: "session_arrives e c (?S1, ?G1) = (?S1, ?G1(c := Got r))"
      using False
      by (auto simp: session_arrives_def r_def Let_def split: gs_result.splits option.splits)
    have seq: "getAuthToken e (idle w) = (r, ?s1)"
      using False
      by (auto simp: getAuthToken_def seq1 r_def Let_def split: gs_result.splits option.splits)
    show ?thesis
      by (simp add: runs_on_def a b seq settle_def resume_def refresh_arrives_def)
  next
    case True
    then obtain x where x: "g = GS_Returns (Some x) None" "truthy (access_token x)"
      "ttl_of (expiresAtMs x) (now e w1) \<le> CLOCK_SKEW_TOLERANCE_S" by blast
    let ?ttl = "ttl_of (expiresAtMs x) (now e w1)"
    let ?S2 = "\<lparr>world = w1, calls = [GetSession], inflight = Some 0, promises = [Pending],
              callers = (\<lambda>x. NotCalled)(c := AwaitingOwn 0)\<rparr>"
    let ?G2 = "?G1(c := AwaitingRefresh ?ttl (access_token x))"
    have b: "session_arrives e c (?S1, ?G1) = (?S2, ?G2)"
      using x by (simp add: session_arrives_def enter_def Let_def)
    let ?S3 = "\<lparr>world = world (snd D), calls = calls (snd D), inflight = Some 0,
              promises = [Settled (fst D)], callers = (\<lambda>x. NotCalled)(c := AwaitingOwn 0)\<rparr>"
    have d: "doRefresh e ?S2 = (fst D, ?S2\<lparr>world := world (snd D), calls := calls (snd D)\<rparr>)"
      by (subst doRefresh_scheme) (simp add: D_def)
    have s3: "settle e 0 ?S2 = ?S3" by (simp add: settle_def d)
    let ?S4 = "\<lparr>world = world (snd D), calls = calls (snd D), inflight = None,
              promises = [Settled (fst D)],
              callers = (\<lambda>x. NotCalled)(c := Returned 0 (fst D))\<rparr>"
    have s4: "resume c ?S3 = ?S4" by (simp add: resume_def settled_value_def)
    let ?r = "case usable (fst D) of Some t \<Rightarrow> Some t
              | None \<Rightarrow> if ?ttl > 0 then Some (access_token x) else None"
    have seq: "getAuthToken e (idle w) =
        (?r, \<lparr>world = world (snd D), calls = calls (snd D), refreshPromise = None\<rparr>)"
      using x by (simp add: getAuthToken_def seq1 Let_def refresh_seq split: option.splits)
    show ?thesis
      by (simp add: runs_on_def a b s3 s4 seq refresh_arrives_def)
  qed
qed




end
